theory Spec2Isabelle
  imports Main "HOL-Library.Sublist"
begin

section \<open>Strings as the source uses them\<close>

text \<open>
  JavaScript strings are modelled as \<open>string\<close> (a list of bytes, UTF-8).
  \<^verbatim>\<open>s.startsWith(p)\<close> is the prefix test.
\<close>

definition startsWith :: "string \<Rightarrow> string \<Rightarrow> bool" where
  "startsWith s p = prefix p s"

text \<open>
  Template strings render a non-negative integer in decimal
  (\<^verbatim>\<open>`${res.status}`\<close>, \<^verbatim>\<open>`${id}`\<close>).
\<close>

definition digitChar :: "nat \<Rightarrow> char" where
  "digitChar d = ''0123456789'' ! d"

fun string_of_nat :: "nat \<Rightarrow> string" where
  "string_of_nat n =
     (if n < 10 then [digitChar n] else string_of_nat (n div 10) @ [digitChar (n mod 10)])"

declare string_of_nat.simps [simp del]

text \<open>Reading a decimal digit back.\<close>

definition digitVal :: "char \<Rightarrow> nat" where
  "digitVal ch = of_char ch - 48"

text \<open>
  \<^verbatim>\<open>encodeURIComponent\<close>: every byte outside the unreserved set
  \<^verbatim>\<open>A-Z a-z 0-9 - _ . ! ~ * ' ( )\<close> becomes \<^verbatim>\<open>%XX\<close> (upper-case hex).
\<close>

definition hexDigit :: "nat \<Rightarrow> char" where
  "hexDigit n = ''0123456789ABCDEF'' ! n"

definition isUnreserved :: "char \<Rightarrow> bool" where
  "isUnreserved c =
     (let n = (of_char c :: nat) in
        (65 \<le> n \<and> n \<le> 90) \<or> (97 \<le> n \<and> n \<le> 122) \<or> (48 \<le> n \<and> n \<le> 57) \<or>
        n \<in> {45, 95, 46, 33, 126, 42, 39, 40, 41})"

definition encodeURIComponent :: "string \<Rightarrow> string" where
  "encodeURIComponent s =
     concat (map (\<lambda>c. if isUnreserved c then [c]
                       else [CHR ''%'', hexDigit (of_char c div 16), hexDigit (of_char c mod 16)]) s)"

section \<open>Token store (lib/auth/cookies.ts, lib/auth/token.ts)\<close>

definition AUTH_COOKIE_NAME :: string where
  "AUTH_COOKIE_NAME = ''admin_auth_token''"

definition AUTH_COOKIE_MAX_AGE :: nat where
  "AUTH_COOKIE_MAX_AGE = 60 * 60 * 24 * 7"

definition SESSION_COOKIE_MAX_AGE :: nat where
  "SESSION_COOKIE_MAX_AGE = 60 * 60 * 24"

definition TOKEN_KEY :: string where
  "TOKEN_KEY = ''admin_auth_token''"

definition USER_KEY :: string where
  "USER_KEY = ''admin_user''"

text \<open>
  The browser state the token store touches: \<^verbatim>\<open>localStorage\<close> and the cookie jar
  behind \<^verbatim>\<open>document.cookie\<close>, which holds the cookies the page's scripts can read
  and write. A cookie keeps the attributes it was written with. The jar identifies a
  cookie by its name, its domain and its path: cookies of one name under different paths or
  domains are different cookies. The domain is \<open>None\<close> for a host-only cookie, which is
  what an assignment without a \<open>Domain\<close> attribute creates.
\<close>

record cookie =
  cvalue :: string
  cpath :: string
  maxAge :: nat
  sameSite :: string

type_synonym cookieKey = "string \<times> string option \<times> string"

record window =
  localStorage :: "string \<rightharpoonup> string"
  cookieJar :: "cookieKey \<rightharpoonup> cookie"

text \<open>
  \<^verbatim>\<open>typeof window !== "undefined"\<close>: the environment is \<open>Some w\<close> in a browser and
  \<open>None\<close> during server-side rendering.
\<close>

type_synonym env = "window option"

definition isBrowser :: "env \<Rightarrow> bool" where
  "isBrowser e = (e \<noteq> None)"

text \<open>
  Assigning \<^verbatim>\<open>name=value; path=p; max-age=n; SameSite=s\<close> to \<^verbatim>\<open>document.cookie\<close>
  acts on the host-only cookie of that name and that path, and on no other: it stores the
  cookie there, and removes the one stored there when \<open>max-age\<close> is 0.
\<close>

definition document_cookie_assign :: "string \<Rightarrow> cookie \<Rightarrow> window \<Rightarrow> window" where
  "document_cookie_assign name c w =
     (if maxAge c = 0 then w\<lparr>cookieJar := (cookieJar w)((name, None, cpath c) := None)\<rparr>
      else w\<lparr>cookieJar := (cookieJar w)((name, None, cpath c) \<mapsto> c)\<rparr>)"

definition setCookie :: "string \<Rightarrow> string \<Rightarrow> nat \<Rightarrow> env \<Rightarrow> env" where
  "setCookie name v maxAgeSeconds e =
     (case e of
        None \<Rightarrow> None
      | Some w \<Rightarrow>
          Some (document_cookie_assign name
                  \<lparr>cvalue = encodeURIComponent v, cpath = ''/'', maxAge = maxAgeSeconds,
                   sameSite = ''Lax''\<rparr> w))"

definition clearCookie :: "string \<Rightarrow> env \<Rightarrow> env" where
  "clearCookie name e =
     (case e of
        None \<Rightarrow> None
      | Some w \<Rightarrow>
          Some (document_cookie_assign name
                  \<lparr>cvalue = [], cpath = ''/'', maxAge = 0, sameSite = ''Lax''\<rparr> w))"

definition getToken :: "env \<Rightarrow> string option" where
  "getToken e = (case e of None \<Rightarrow> None | Some w \<Rightarrow> localStorage w TOKEN_KEY)"

text \<open>\<^verbatim>\<open>remember?: boolean\<close> is \<open>None\<close> when omitted; only \<open>Some True\<close> is truthy.\<close>

definition setToken :: "string \<Rightarrow> bool option \<Rightarrow> env \<Rightarrow> env" where
  "setToken token remember e =
     (case e of
        None \<Rightarrow> None
      | Some w \<Rightarrow>
          (let w1 = w\<lparr>localStorage := (localStorage w)(TOKEN_KEY \<mapsto> token)\<rparr>;
               maxAge = (if remember = Some True then AUTH_COOKIE_MAX_AGE
                         else SESSION_COOKIE_MAX_AGE)
           in setCookie AUTH_COOKIE_NAME token maxAge (Some w1)))"

definition removeToken :: "env \<Rightarrow> env" where
  "removeToken e =
     (case e of
        None \<Rightarrow> None
      | Some w \<Rightarrow>
          clearCookie AUTH_COOKIE_NAME
            (Some (w\<lparr>localStorage := (localStorage w)(TOKEN_KEY := None)\<rparr>)))"

definition hasToken :: "env \<Rightarrow> bool" where
  "hasToken e = (getToken e \<noteq> None)"

text \<open>Looking a cookie up in the jar of an environment.\<close>

definition jarLookup :: "env \<Rightarrow> cookieKey \<Rightarrow> cookie option" where
  "jarLookup e k = (case e of None \<Rightarrow> None | Some w \<Rightarrow> cookieJar w k)"

text \<open>
  The cookie of the token store: the host-only cookie named \<open>AUTH_COOKIE_NAME\<close> under
  the path \<open>/\<close>, which is where \<open>setToken\<close> writes and \<open>removeToken\<close> clears.
\<close>

definition authCookieKey :: cookieKey where
  "authCookieKey = (AUTH_COOKIE_NAME, None, ''/'')"

definition authCookie :: "env \<Rightarrow> cookie option" where
  "authCookie e = jarLookup e authCookieKey"

section \<open>JavaScript values\<close>

text \<open>
  Values that come out of \<^verbatim>\<open>JSON.parse\<close>. \<^verbatim>\<open>undefined\<close> is \<open>None\<close> of
  \<open>json option\<close>. Numbers are modelled by an integer; the code only tests them for
  truthiness. An object is its property list, looked up with \<open>map_of\<close>.
\<close>

datatype json =
    JNull
  | JBool bool
  | JNum int
  | JStr string
  | JArr "json list"
  | JObj "(string \<times> json) list"

fun truthy :: "json \<Rightarrow> bool" where
  "truthy JNull = False"
| "truthy (JBool b) = b"
| "truthy (JNum n) = (n \<noteq> 0)"
| "truthy (JStr s) = (s \<noteq> [])"
| "truthy (JArr xs) = True"
| "truthy (JObj fs) = True"

definition truthyU :: "json option \<Rightarrow> bool" where
  "truthyU v = (case v of None \<Rightarrow> False | Some j \<Rightarrow> truthy j)"

text \<open>Truthiness of a \<^verbatim>\<open>string | null | undefined\<close>: absent and empty are falsy.\<close>

definition truthyStr :: "string option \<Rightarrow> bool" where
  "truthyStr v = (case v of None \<Rightarrow> False | Some s \<Rightarrow> s \<noteq> [])"

text \<open>
  \<^verbatim>\<open>v?.k\<close> for the property names the code reads (\<open>success\<close>, \<open>data\<close>,
  \<open>token\<close>, \<open>admin\<close>, \<open>message\<close>): defined on objects only, \<^verbatim>\<open>undefined\<close>
  on everything else.
\<close>

fun getProp :: "json option \<Rightarrow> string \<Rightarrow> json option" where
  "getProp (Some (JObj fs)) k = map_of fs k"
| "getProp _ k = None"

text \<open>\<^verbatim>\<open>typeof v === "object"\<close> holds of \<^verbatim>\<open>null\<close>, arrays and objects.\<close>

fun typeofObject :: "json option \<Rightarrow> bool" where
  "typeofObject (Some JNull) = True"
| "typeofObject (Some (JArr xs)) = True"
| "typeofObject (Some (JObj fs)) = True"
| "typeofObject _ = False"

text \<open>\<^verbatim>\<open>"k" in v\<close> for a \<open>v\<close> already known to be a non-null object.\<close>

fun hasProp :: "string \<Rightarrow> json option \<Rightarrow> bool" where
  "hasProp k (Some (JObj fs)) = (map_of fs k \<noteq> None)"
| "hasProp k _ = False"

text \<open>
  What can be thrown: the \<open>ApiError\<close> class of the client (message, status, data), the
  \<open>SyntaxError\<close> of \<^verbatim>\<open>JSON.parse\<close>, and any other error (a failed \<^verbatim>\<open>fetch\<close>).
\<close>

datatype thrown =
    ApiError (errMessage: string) (errStatus: nat) (errData: "json option")
  | SyntaxError
  | OtherError string

text \<open>
  The platform functions the code calls and does not define: \<^verbatim>\<open>JSON.parse\<close> (which
  throws on malformed text), \<^verbatim>\<open>JSON.stringify\<close> and the string conversion of a value
  that is not a string already.
\<close>

record platform =
  JSON_parse :: "string \<Rightarrow> thrown + json"
  JSON_stringify :: "json \<Rightarrow> string"
  ToString :: "json \<Rightarrow> string"

definition js_String :: "platform \<Rightarrow> json option \<Rightarrow> string" where
  "js_String P v =
     (case v of
        None \<Rightarrow> ''undefined''
      | Some (JStr s) \<Rightarrow> s
      | Some j \<Rightarrow> ToString P j)"

section \<open>API client (lib/api/client.ts)\<close>

record httpResponse =
  status :: nat
  body :: string

definition res_ok :: "httpResponse \<Rightarrow> bool" where
  "res_ok res = (200 \<le> status res \<and> status res \<le> 299)"

definition parseJsonSafe :: "platform \<Rightarrow> httpResponse \<Rightarrow> json option" where
  "parseJsonSafe P response =
     (let text = body response in
      if text = [] then None
      else (case JSON_parse P text of Inl e \<Rightarrow> None | Inr v \<Rightarrow> Some v))"

text \<open>
  \<open>apiFetch\<close>, from the outcome of \<^verbatim>\<open>await fetch(url, init)\<close> on: either \<open>fetch\<close>
  threw, or it produced a response. Building the request (URL, headers, body) has no
  influence on how the response is handled.
\<close>

definition apiFetch :: "platform \<Rightarrow> thrown + httpResponse \<Rightarrow> thrown + json" where
  "apiFetch P fetched =
     (case fetched of
        Inl e \<Rightarrow> Inl e
      | Inr res \<Rightarrow>
          (let data = parseJsonSafe P res in
           if \<not> res_ok res then
             (let message =
                (if truthyU data \<and> typeofObject data \<and> hasProp ''message'' data \<and>
                    truthyU (getProp data ''message'')
                 then js_String P (getProp data ''message'')
                 else ''Request failed with status '' @ string_of_nat (status res))
              in Inl (ApiError message (status res) data))
           else
             Inr (case data of None \<Rightarrow> JObj [] | Some JNull \<Rightarrow> JObj [] | Some v \<Rightarrow> v)))"

section \<open>Auth API service (lib/api/auth.ts)\<close>

definition api_login ::
  "platform \<Rightarrow> thrown + httpResponse \<Rightarrow> bool option \<Rightarrow> env \<Rightarrow> (thrown + json) \<times> env" where
  "api_login P fetched remember e =
     (case apiFetch P fetched of
        Inl err \<Rightarrow> (Inl err, e)
      | Inr response \<Rightarrow>
          (let token = getProp (getProp (Some response) ''data'') ''token'' in
           if truthyU (getProp (Some response) ''success'') \<and> truthyU token
           then (Inr response, setToken (js_String P token) remember e)
           else (Inr response, e)))"

text \<open>\<^verbatim>\<open>try { await apiFetch(...) } catch { } finally { removeToken() }\<close>\<close>

definition api_logout :: "platform \<Rightarrow> thrown + httpResponse \<Rightarrow> env \<Rightarrow> (thrown + unit) \<times> env" where
  "api_logout P fetched e =
     (case apiFetch P fetched of
        Inl err \<Rightarrow> (Inr (), removeToken e)
      | Inr r \<Rightarrow> (Inr (), removeToken e))"

section \<open>Stored user (lib/auth/token.ts)\<close>

text \<open>The body of the \<^verbatim>\<open>try\<close> block of \<open>getStoredUser\<close>, where \<^verbatim>\<open>JSON.parse\<close> may throw.\<close>

definition getStoredUser_try :: "platform \<Rightarrow> window \<Rightarrow> thrown + json" where
  "getStoredUser_try P w =
     (case localStorage w USER_KEY of
        None \<Rightarrow> Inr JNull
      | Some raw \<Rightarrow> if raw = [] then Inr JNull else JSON_parse P raw)"

definition getStoredUser :: "platform \<Rightarrow> env \<Rightarrow> thrown + json" where
  "getStoredUser P e =
     (case e of
        None \<Rightarrow> Inr JNull
      | Some w \<Rightarrow>
          (case getStoredUser_try P w of
             Inl caught \<Rightarrow> Inr JNull
           | Inr u \<Rightarrow> Inr u))"

definition setStoredUser :: "platform \<Rightarrow> json \<Rightarrow> env \<Rightarrow> env" where
  "setStoredUser P u e =
     (case e of
        None \<Rightarrow> None
      | Some w \<Rightarrow>
          (if u = JNull then Some (w\<lparr>localStorage := (localStorage w)(USER_KEY := None)\<rparr>)
           else Some (w\<lparr>localStorage := (localStorage w)(USER_KEY \<mapsto> JSON_stringify P u)\<rparr>)))"

section \<open>Auth context (lib/auth/context.tsx)\<close>

definition DEFAULT_REDIRECT_AFTER_LOGIN :: string where
  "DEFAULT_REDIRECT_AFTER_LOGIN = ''/''"

definition LOGIN_PATH :: string where
  "LOGIN_PATH = ''/login''"

record loginOptions =
  redirectTo :: "string option"
  remember :: "bool option"

text \<open>
  The provider's state (\<open>user\<close>, with \<open>JNull\<close> for \<^verbatim>\<open>null\<close>, and \<open>isLoading\<close>), the
  environment it runs in, and the target of the last \<^verbatim>\<open>router.replace\<close>.
\<close>

record session =
  user :: json
  isLoading :: bool
  environment :: env
  replaced :: "string option"

definition checkAuth :: "platform \<Rightarrow> session \<Rightarrow> thrown + session" where
  "checkAuth P s =
     (let token = getToken (environment s) in
      if \<not> truthyStr token then Inr (s\<lparr>user := JNull, isLoading := False\<rparr>)
      else (case getStoredUser P (environment s) of
              Inl err \<Rightarrow> Inl err
            | Inr storedUser \<Rightarrow> Inr (s\<lparr>user := storedUser, isLoading := False\<rparr>)))"

definition login ::
  "platform \<Rightarrow> thrown + httpResponse \<Rightarrow> loginOptions option \<Rightarrow> session \<Rightarrow>
     (thrown + unit) \<times> session" where
  "login P fetched options s =
     (case api_login P fetched (case options of None \<Rightarrow> None | Some opt \<Rightarrow> remember opt)
             (environment s) of
        (Inl err, e1) \<Rightarrow> (Inl err, s\<lparr>environment := e1\<rparr>)
      | (Inr response, e1) \<Rightarrow>
          (let data = getProp (Some response) ''data'';
               msg = (if truthyU data \<and> typeofObject data \<and> hasProp ''message'' data
                      then js_String P (getProp data ''message'')
                      else ''Login failed. Please try again.'');
               failure = (Inl (ApiError msg 400 (Some response)), s\<lparr>environment := e1\<rparr>)
           in
           if \<not> truthyU (getProp (Some response) ''success'') \<or>
              \<not> truthyU (getProp data ''token'')
           then failure
           else
             (case getProp data ''admin'' of
                None \<Rightarrow> failure
              | Some admin \<Rightarrow>
                  if \<not> truthy admin then failure
                  else
                    (let e2 = setStoredUser P admin e1;
                         target =
                           (case (case options of None \<Rightarrow> None | Some opt \<Rightarrow> redirectTo opt) of
                              None \<Rightarrow> DEFAULT_REDIRECT_AFTER_LOGIN
                            | Some r \<Rightarrow>
                                if r \<noteq> [] \<and> startsWith r ''/'' then r
                                else DEFAULT_REDIRECT_AFTER_LOGIN)
                     in (Inr (),
                         s\<lparr>user := admin, environment := e2, replaced := Some target\<rparr>)))))"

text \<open>
  \<^verbatim>\<open>try { await apiLogout() } catch { } finally { removeToken(); setUser(null);
  setStoredUser(null); router.replace("/login") }\<close>
\<close>

definition logout :: "platform \<Rightarrow> thrown + httpResponse \<Rightarrow> session \<Rightarrow> (thrown + unit) \<times> session" where
  "logout P fetched s =
     (case api_logout P fetched (environment s) of
        (r, e1) \<Rightarrow>
          (Inr (),
           s\<lparr>user := JNull,
             environment := setStoredUser P JNull (removeToken e1),
             replaced := Some ''/login''\<rparr>))"

section \<open>Route configuration and Route Gate (lib/auth/config.ts, middleware.ts)\<close>

definition CALLBACK_URL_PARAM :: string where
  "CALLBACK_URL_PARAM = ''callbackUrl''"

definition PUBLIC_PATHS :: "string list" where
  "PUBLIC_PATHS = [LOGIN_PATH]"

definition UNPROTECTED_PREFIXES :: "string list" where
  "UNPROTECTED_PREFIXES =
     [''/_next'', ''/api/'', ''/favicon'', ''/icon'', ''/apple-icon'', ''/placeholder'']"

definition isPublicPath :: "string \<Rightarrow> bool" where
  "isPublicPath p =
     (if p \<in> set PUBLIC_PATHS then True
      else list_ex (\<lambda>pre. startsWith p pre) UNPROTECTED_PREFIXES)"

definition isLoginPath :: "string \<Rightarrow> bool" where
  "isLoginPath p = (p = LOGIN_PATH)"

text \<open>
  A URL as the gate uses it: origin, path and the query as an ordered list of pairs.
\<close>

record url =
  origin :: string
  pathname :: string
  searchParams :: "(string \<times> string) list"

definition searchParams_get :: "(string \<times> string) list \<Rightarrow> string \<Rightarrow> string option" where
  "searchParams_get ps k = map_of ps k"

definition searchParams_delete :: "(string \<times> string) list \<Rightarrow> string \<Rightarrow> (string \<times> string) list" where
  "searchParams_delete ps k = filter (\<lambda>(n, v). n \<noteq> k) ps"

fun searchParams_set :: "(string \<times> string) list \<Rightarrow> string \<Rightarrow> string \<Rightarrow> (string \<times> string) list" where
  "searchParams_set [] k v = [(k, v)]"
| "searchParams_set ((n, x) # ps) k v =
     (if n = k then (k, v) # searchParams_delete ps k else (n, x) # searchParams_set ps k v)"

text \<open>The request: its URL and its cookies (name to value).\<close>

record request =
  nextUrl :: url
  cookies :: "string \<rightharpoonup> string"

datatype response = NextResponse_next | NextResponse_redirect url

text \<open>
  The assignment \<^verbatim>\<open>url.pathname = v\<close> does not store \<open>v\<close> as it is: the URL
  implementation of the platform parses \<open>v\<close> as a path, percent-encoding characters such
  as \<open>?\<close>, \<open>#\<close> and the space and resolving \<open>.\<close> and \<open>..\<close> segments and
  backslashes, and the path of the URL is the result. That function belongs to the
  platform; it is the parameter \<open>setPathname\<close> of the gate. The origin of the URL is not
  affected by the assignment.

  The framework calls \<open>middleware\<close> for the requests that \<^verbatim>\<open>config.matcher\<close>
  selects; the function below is the gate on a request it is called with.
\<close>

definition middleware :: "(string \<Rightarrow> string) \<Rightarrow> request \<Rightarrow> response" where
  "middleware setPathname req =
     (let p = pathname (nextUrl req) in
      if isPublicPath p then
        (let token = cookies req AUTH_COOKIE_NAME in
         if truthyStr token \<and> isLoginPath p then
           (let u = nextUrl req;
                callbackUrl = searchParams_get (searchParams u) CALLBACK_URL_PARAM;
                u1 = u\<lparr>pathname :=
                         setPathname
                           (case callbackUrl of
                              None \<Rightarrow> DEFAULT_REDIRECT_AFTER_LOGIN
                            | Some cb \<Rightarrow>
                                if cb \<noteq> [] \<and> startsWith cb ''/'' then cb
                                else DEFAULT_REDIRECT_AFTER_LOGIN)\<rparr>;
                u2 = u1\<lparr>searchParams := searchParams_delete (searchParams u1) CALLBACK_URL_PARAM\<rparr>
            in NextResponse_redirect u2)
         else NextResponse_next)
      else
        (let token = cookies req AUTH_COOKIE_NAME in
         if \<not> truthyStr token then
           (let loginUrl = \<lparr>origin = origin (nextUrl req), pathname = LOGIN_PATH, searchParams = []\<rparr>;
                loginUrl1 = loginUrl\<lparr>searchParams :=
                              searchParams_set (searchParams loginUrl) CALLBACK_URL_PARAM p\<rparr>
            in NextResponse_redirect loginUrl1)
         else NextResponse_next))"

text \<open>
  The path the gate hands to the pathname setter on the login page: the
  \<open>callbackUrl\<close> parameter when it starts with \<open>/\<close>, the default otherwise.
\<close>

definition callbackTarget :: "request \<Rightarrow> string" where
  "callbackTarget req =
     (case searchParams_get (searchParams (nextUrl req)) CALLBACK_URL_PARAM of
        None \<Rightarrow> DEFAULT_REDIRECT_AFTER_LOGIN
      | Some cb \<Rightarrow> if startsWith cb ''/'' then cb else DEFAULT_REDIRECT_AFTER_LOGIN)"

section \<open>The data cache behind the hooks\<close>

text \<open>
  The hooks keep fetched data in the cache of the SWR library, under string keys. Of that
  library the mutations use one operation, \<^verbatim>\<open>mutate(k, undefined, {revalidate})\<close>: it
  replaces the cached data of the affected keys by \<^verbatim>\<open>undefined\<close> and, with
  \<open>revalidate\<close> set, asks the mounted readers of the key to fetch again. Given a filter
  function it does so for every key in the cache that the filter accepts; given a key, for
  that key.
\<close>

record cacheEntry =
  cachedData :: "json option"
  revalidationRequested :: bool

type_synonym cache = "string \<rightharpoonup> cacheEntry"

definition globalMutate_key :: "string \<Rightarrow> bool \<Rightarrow> cache \<Rightarrow> cache" where
  "globalMutate_key k revalidate c =
     c(k \<mapsto> \<lparr>cachedData = None, revalidationRequested = revalidate\<rparr>)"

definition globalMutate_filter :: "(string \<Rightarrow> bool) \<Rightarrow> bool \<Rightarrow> cache \<Rightarrow> cache" where
  "globalMutate_filter matches revalidate c =
     (\<lambda>k. case c k of
            None \<Rightarrow> None
          | Some entry \<Rightarrow>
              if matches k then Some \<lparr>cachedData = None, revalidationRequested = revalidate\<rparr>
              else Some entry)"

text \<open>A reader of key \<open>k\<close> has to fetch when the cache holds no data for \<open>k\<close>.\<close>

definition mustFetch :: "cache \<Rightarrow> string \<Rightarrow> bool" where
  "mustFetch c k = (case c k of None \<Rightarrow> True | Some entry \<Rightarrow> cachedData entry = None)"

section \<open>News and PDF data hooks\<close>

text \<open>\<^verbatim>\<open>parts.join("-")\<close>\<close>

fun joinWith :: "string \<Rightarrow> string list \<Rightarrow> string" where
  "joinWith sep [] = []"
| "joinWith sep [x] = x"
| "joinWith sep (x # y # ys) = x @ sep @ joinWith sep (y # ys)"

record listParams =
  page :: "nat option"
  limit :: "nat option"
  search :: "string option"

definition listKeyParts :: "listParams option \<Rightarrow> string list" where
  "listKeyParts params =
     (case params of
        None \<Rightarrow> []
      | Some q \<Rightarrow>
          (case page q of None \<Rightarrow> [] | Some n \<Rightarrow> if n \<noteq> 0 then [''page='' @ string_of_nat n] else []) @
          (case limit q of None \<Rightarrow> [] | Some n \<Rightarrow> if n \<noteq> 0 then [''limit='' @ string_of_nat n] else []) @
          (case search q of None \<Rightarrow> [] | Some t \<Rightarrow> if t \<noteq> [] then [''search='' @ t] else []))"

definition getNewsListKey :: "listParams option \<Rightarrow> string" where
  "getNewsListKey params = joinWith ''-'' (''news-list'' # listKeyParts params)"

definition getPdfListKey :: "listParams option \<Rightarrow> string" where
  "getPdfListKey params = joinWith ''-'' (''pdf-list'' # listKeyParts params)"

text \<open>
  A record identifier is a \<^verbatim>\<open>number | string\<close>; \<^verbatim>\<open>`${id}`\<close> renders a number in
  decimal and a string as it is.
\<close>

datatype ident = IdNum nat | IdStr string

fun idText :: "ident \<Rightarrow> string" where
  "idText (IdNum n) = string_of_nat n"
| "idText (IdStr t) = t"

definition newsSingleKey :: "ident \<Rightarrow> string" where
  "newsSingleKey i = ''news-single-'' @ idText i"

definition pdfSingleKey :: "ident \<Rightarrow> string" where
  "pdfSingleKey i = ''pdf-single-'' @ idText i"

definition isNewsListKey :: "string \<Rightarrow> bool" where
  "isNewsListKey key = startsWith key ''news-list''"

definition isPdfListKey :: "string \<Rightarrow> bool" where
  "isPdfListKey key = startsWith key ''pdf-list''"

text \<open>
  Each mutation awaits the API call (an \<open>apiFetch\<close>); when that throws, the error is
  rethrown and the cache is not touched; when it returns, the cache is mutated.
\<close>

definition createNews :: "platform \<Rightarrow> thrown + httpResponse \<Rightarrow> cache \<Rightarrow> (thrown + json option) \<times> cache" where
  "createNews P fetched c =
     (case apiFetch P fetched of
        Inl err \<Rightarrow> (Inl err, c)
      | Inr response \<Rightarrow>
          (Inr (getProp (Some response) ''data''), globalMutate_filter isNewsListKey True c))"

definition updateNews ::
  "platform \<Rightarrow> ident \<Rightarrow> thrown + httpResponse \<Rightarrow> cache \<Rightarrow> (thrown + json option) \<times> cache" where
  "updateNews P i fetched c =
     (case apiFetch P fetched of
        Inl err \<Rightarrow> (Inl err, c)
      | Inr response \<Rightarrow>
          (Inr (getProp (Some response) ''data''),
           globalMutate_filter isNewsListKey True (globalMutate_key (newsSingleKey i) True c)))"

definition deleteNews ::
  "platform \<Rightarrow> ident \<Rightarrow> thrown + httpResponse \<Rightarrow> cache \<Rightarrow> (thrown + bool) \<times> cache" where
  "deleteNews P i fetched c =
     (case apiFetch P fetched of
        Inl err \<Rightarrow> (Inl err, c)
      | Inr response \<Rightarrow>
          (Inr True,
           globalMutate_filter isNewsListKey True (globalMutate_key (newsSingleKey i) False c)))"

definition createPdf :: "platform \<Rightarrow> thrown + httpResponse \<Rightarrow> cache \<Rightarrow> (thrown + json option) \<times> cache" where
  "createPdf P fetched c =
     (case apiFetch P fetched of
        Inl err \<Rightarrow> (Inl err, c)
      | Inr response \<Rightarrow>
          (Inr (getProp (Some response) ''data''), globalMutate_filter isPdfListKey True c))"

definition updatePdf ::
  "platform \<Rightarrow> ident \<Rightarrow> thrown + httpResponse \<Rightarrow> cache \<Rightarrow> (thrown + json option) \<times> cache" where
  "updatePdf P i fetched c =
     (case apiFetch P fetched of
        Inl err \<Rightarrow> (Inl err, c)
      | Inr response \<Rightarrow>
          (Inr (getProp (Some response) ''data''),
           globalMutate_filter isPdfListKey True (globalMutate_key (pdfSingleKey i) True c)))"

definition deletePdf ::
  "platform \<Rightarrow> ident \<Rightarrow> thrown + httpResponse \<Rightarrow> cache \<Rightarrow> (thrown + bool) \<times> cache" where
  "deletePdf P i fetched c =
     (case apiFetch P fetched of
        Inl err \<Rightarrow> (Inl err, c)
      | Inr response \<Rightarrow>
          (Inr True,
           globalMutate_filter isPdfListKey True (globalMutate_key (pdfSingleKey i) False c)))"

definition updateStatus ::
  "platform \<Rightarrow> ident \<Rightarrow> thrown + httpResponse \<Rightarrow> cache \<Rightarrow> (thrown + bool) \<times> cache" where
  "updateStatus P i fetched c =
     (case apiFetch P fetched of
        Inl err \<Rightarrow> (Inl err, c)
      | Inr response \<Rightarrow> (Inr True, globalMutate_filter isPdfListKey True c))"

section \<open>Sample inputs for the concrete evaluations\<close>

text \<open>
  A platform whose \<^verbatim>\<open>JSON.parse\<close> knows the few texts used below, with the values the
  real one gives them, and rejects every other text.
\<close>

definition exampleParse :: "string \<Rightarrow> thrown + json" where
  \<open>exampleParse text =
     (if text = ''null'' then Inr JNull
      else if text = ''{}'' then Inr (JObj [])
      else if text = ''{"message":"Invalid credentials"}''
        then Inr (JObj [(''message'', JStr ''Invalid credentials'')])
      else if text = ''{"success":true,"data":{"token":"t0"}}''
        then Inr (JObj [(''success'', JBool True), (''data'', JObj [(''token'', JStr ''t0'')])])
      else if text = ''{"success":true,"data":{"token":"t0","admin":{"id":1}}}''
        then Inr (JObj [(''success'', JBool True),
                        (''data'', JObj [(''token'', JStr ''t0''),
                                         (''admin'', JObj [(''id'', JNum 1)])])])
      else Inl SyntaxError)\<close>

definition examplePlatform :: platform where
  "examplePlatform =
     \<lparr>JSON_parse = exampleParse, JSON_stringify = (\<lambda>v. ''{}''), ToString = (\<lambda>v. [])\<rparr>"

text \<open>
  A pathname setter with the real one's results on the paths used below: it encodes the
  \<open>?\<close> of \<open>/news?page=2\<close>, resolves \<open>/../x\<close>, and leaves a path of plain
  segments as it is.
\<close>

definition exampleSetPathname :: "string \<Rightarrow> string" where
  "exampleSetPathname v =
     (if v = ''/news?page=2'' then ''/news%3Fpage=2''
      else if v = ''/../x'' then ''/x''
      else v)"

definition emptyWindow :: window where
  "emptyWindow = \<lparr>localStorage = Map.empty, cookieJar = Map.empty\<rparr>"

text \<open>
  A window in which the token store has stored \<open>t0\<close>, and whose jar also holds a cookie
  of the same name under the path \<open>/login\<close> (as a \<open>Set-Cookie\<close> header with
  \<open>Path=/login\<close> leaves it); and the same window without the store's own entries.
\<close>

definition loginPathCookie :: cookie where
  "loginPathCookie = \<lparr>cvalue = ''t0'', cpath = ''/login'', maxAge = 86400, sameSite = ''Lax''\<rparr>"

definition twoCookieWindow :: window where
  "twoCookieWindow =
     \<lparr>localStorage = [TOKEN_KEY \<mapsto> ''t0''],
      cookieJar =
        [(AUTH_COOKIE_NAME, None, ''/'') \<mapsto>
           \<lparr>cvalue = ''t0'', cpath = ''/'', maxAge = 86400, sameSite = ''Lax''\<rparr>,
         (AUTH_COOKIE_NAME, None, ''/login'') \<mapsto> loginPathCookie]\<rparr>"

definition otherPathWindow :: window where
  "otherPathWindow =
     \<lparr>localStorage = [USER_KEY \<mapsto> ''{}''],
      cookieJar = [(AUTH_COOKIE_NAME, None, ''/login'') \<mapsto> loginPathCookie]\<rparr>"

definition loggedOut :: session where
  "loggedOut = \<lparr>user = JNull, isLoading = False, environment = Some emptyWindow, replaced = None\<rparr>"

definition exampleCache :: cache where
  "exampleCache =
     [''news-list-page=2-limit=10'' \<mapsto> \<lparr>cachedData = Some (JArr []), revalidationRequested = False\<rparr>,
      ''pdf-list-search=tax'' \<mapsto> \<lparr>cachedData = Some (JArr []), revalidationRequested = False\<rparr>,
      ''news-single-42'' \<mapsto> \<lparr>cachedData = Some (JObj []), revalidationRequested = False\<rparr>,
      ''news-single-7'' \<mapsto> \<lparr>cachedData = Some (JObj []), revalidationRequested = False\<rparr>]"

section \<open>Properties of the token store\<close>

lemma max_age_values:
  "AUTH_COOKIE_MAX_AGE = 604800" "SESSION_COOKIE_MAX_AGE = 86400"
  by (simp_all add: AUTH_COOKIE_MAX_AGE_def SESSION_COOKIE_MAX_AGE_def)

lemma setToken_browser:
  "setToken t r (Some w) =
     Some (w\<lparr>localStorage := (localStorage w)(TOKEN_KEY \<mapsto> t),
             cookieJar := (cookieJar w)(authCookieKey \<mapsto>
               \<lparr>cvalue = encodeURIComponent t, cpath = ''/'',
                maxAge = (if r = Some True then 604800 else 86400),
                sameSite = ''Lax''\<rparr>)\<rparr>)"
  by (simp add: setToken_def setCookie_def document_cookie_assign_def max_age_values Let_def
      authCookieKey_def)

lemma removeToken_browser:
  "removeToken (Some w) =
     Some (w\<lparr>localStorage := (localStorage w)(TOKEN_KEY := None),
             cookieJar := (cookieJar w)(authCookieKey := None)\<rparr>)"
  by (simp add: removeToken_def clearCookie_def document_cookie_assign_def authCookieKey_def)

lemma removeToken_server: "removeToken None = None"
  by (simp add: removeToken_def)

text \<open>
  C5. In a browser, for every token \<open>t\<close> and every prior storage state:
  \<open>setToken t\<close> with \<open>remember = true\<close> writes the auth cookie with max-age 604800 s
  (7 days); with \<open>remember = false\<close> or omitted it writes it with max-age 86400 s
  (24 hours); in every case \<open>getToken\<close> afterwards returns \<open>t\<close> from localStorage.
\<close>

theorem setToken_max_age_and_getToken:
  "map_option maxAge (authCookie (setToken t (Some True) (Some w))) = Some 604800 \<and>
   map_option maxAge (authCookie (setToken t (Some False) (Some w))) = Some 86400 \<and>
   map_option maxAge (authCookie (setToken t None (Some w))) = Some 86400 \<and>
   getToken (setToken t r (Some w)) = Some t"
  by (simp add: setToken_browser authCookie_def jarLookup_def getToken_def)

theorem setToken_max_age_and_getToken_witness:
  "map_option maxAge (authCookie (setToken ''t0'' (Some True) (Some emptyWindow))) = Some 604800 \<and>
   map_option maxAge (authCookie (setToken ''t0'' None (Some emptyWindow))) = Some 86400 \<and>
   getToken (setToken ''t0'' (Some True) (Some emptyWindow)) = Some ''t0''"
  using setToken_max_age_and_getToken [of "''t0''" emptyWindow "Some True"] by simp

text \<open>
  C9, as the code has it. \<open>removeToken\<close> is idempotent on every environment; afterwards
  localStorage holds no token and the jar holds no cookie of the token store (the host-only
  cookie of that name under the path \<open>/\<close>); every other cookie of the jar, one of the
  same name under another path or domain included, is left as it was; and when no token was
  stored in either place it leaves the environment as it was. The function has no error
  branch.
\<close>

theorem removeToken_idempotent:
  "removeToken (removeToken e) = removeToken e \<and>
   getToken (removeToken e) = None \<and>
   authCookie (removeToken e) = None \<and>
   (k \<noteq> authCookieKey \<longrightarrow> jarLookup (removeToken e) k = jarLookup e k) \<and>
   (getToken e = None \<and> authCookie e = None \<longrightarrow> removeToken e = e)"
proof (cases e)
  case None
  then show ?thesis
    by (simp add: removeToken_server getToken_def authCookie_def jarLookup_def)
next
  case (Some w)
  have noop: "localStorage w TOKEN_KEY = None \<Longrightarrow> cookieJar w authCookieKey = None \<Longrightarrow>
      w\<lparr>localStorage := (localStorage w)(TOKEN_KEY := None),
        cookieJar := (cookieJar w)(authCookieKey := None)\<rparr> = w"
    by (simp add: fun_upd_idem)
  with Some show ?thesis
    by (simp add: removeToken_browser getToken_def authCookie_def jarLookup_def)
qed

theorem removeToken_idempotent_witness:
  "removeToken (removeToken (Some twoCookieWindow)) = removeToken (Some twoCookieWindow) \<and>
   getToken (Some twoCookieWindow) = Some ''t0'' \<and>
   getToken (removeToken (Some twoCookieWindow)) = None \<and>
   authCookie (removeToken (Some twoCookieWindow)) = None \<and>
   (AUTH_COOKIE_NAME, None, ''/login'') \<noteq> authCookieKey \<and>
   jarLookup (removeToken (Some twoCookieWindow)) (AUTH_COOKIE_NAME, None, ''/login'') =
     Some loginPathCookie \<and>
   getToken (Some otherPathWindow) = None \<and>
   authCookie (Some otherPathWindow) = None \<and>
   removeToken (Some otherPathWindow) = Some otherPathWindow"
  using
    removeToken_idempotent [of "Some twoCookieWindow" "(AUTH_COOKIE_NAME, None, ''/login'')"]
    removeToken_idempotent [of "Some otherPathWindow"]
  by (simp add: getToken_def authCookie_def jarLookup_def authCookieKey_def twoCookieWindow_def
      otherPathWindow_def TOKEN_KEY_def USER_KEY_def)

text \<open>
  C9 as stated fails for a starting state whose jar holds a cookie of the token's name
  under another path: that cookie is still there after one call and after two, so the
  cookie of that name is not empty.
\<close>

theorem removeToken_other_path_counterexample:
  "jarLookup (removeToken (Some twoCookieWindow)) (AUTH_COOKIE_NAME, None, ''/login'') =
     Some loginPathCookie \<and>
   jarLookup (removeToken (removeToken (Some twoCookieWindow)))
     (AUTH_COOKIE_NAME, None, ''/login'') = Some loginPathCookie"
  by (simp add: removeToken_browser jarLookup_def authCookieKey_def twoCookieWindow_def)

section \<open>Decimal rendering is injective\<close>

lemma digitVal_digitChar: "d < 10 \<Longrightarrow> digitVal (digitChar d) = d"
proof -
  assume "d < 10"
  then have "d \<in> {0, 1, 2, 3, 4, 5, 6, 7, 8, 9}" by auto
  then show ?thesis
    by (auto simp: digitVal_def digitChar_def)
qed

lemma read_string_of_nat: "foldl (\<lambda>a ch. 10 * a + digitVal ch) 0 (string_of_nat n) = n"
proof (induction n rule: string_of_nat.induct)
  case (1 n)
  show ?case
  proof (cases "n < 10")
    case True
    then show ?thesis
      by (subst string_of_nat.simps) (simp add: digitVal_digitChar)
  next
    case False
    with 1 have IH:
      "foldl (\<lambda>a ch. 10 * a + digitVal ch) 0 (string_of_nat (n div 10)) = n div 10"
      by simp
    have "n mod 10 < 10" by simp
    then have "digitVal (digitChar (n mod 10)) = n mod 10"
      by (rule digitVal_digitChar)
    with False IH show ?thesis
      by (subst string_of_nat.simps) simp
  qed
qed

lemma string_of_nat_inj: "string_of_nat n = string_of_nat m \<Longrightarrow> n = m"
  by (metis read_string_of_nat)

section \<open>Properties of the API client\<close>




lemma apiFetch_ok:
  "res_ok res \<Longrightarrow> apiFetch P (Inr res) =
     Inr (case parseJsonSafe P res of
            None \<Rightarrow> JObj []
          | Some v \<Rightarrow> if v = JNull then JObj [] else v)"
  by (auto simp: apiFetch_def Let_def split: option.splits json.splits)


lemma example_parse_simps:
  "JSON_parse examplePlatform ''null'' = Inr JNull"
  "JSON_parse examplePlatform ''{}'' = Inr (JObj [])"
  "JSON_parse examplePlatform ''oops'' = Inl SyntaxError"
  by (simp_all add: examplePlatform_def exampleParse_def)





section \<open>Properties of the stored user and of logout\<close>

lemma getStoredUser_Inr: "\<exists>v. getStoredUser P e = Inr v"
  by (auto simp: getStoredUser_def split: option.splits sum.splits)

lemma checkAuth_Inr: "\<exists>s'. checkAuth P s = Inr s'"
  using getStoredUser_Inr [of P "environment s"]
  by (auto simp: checkAuth_def Let_def)

lemma api_logout_result: "api_logout P fetched e = (Inr (), removeToken e)"
  by (simp add: api_logout_def split: sum.splits)

text \<open>
  C10. \<open>getStoredUser\<close> always returns and never throws, whatever localStorage
  holds: it returns \<^verbatim>\<open>null\<close> outside a browser, when the entry is absent and when
  \<^verbatim>\<open>JSON.parse\<close> rejects the entry, and the parsed value when the (non-empty) entry
  parses. Hence \<open>checkAuth\<close> always returns as well.
\<close>

theorem getStoredUser_total:
  "(\<exists>v. getStoredUser P e = Inr v) \<and>
   (\<exists>s'. checkAuth P s = Inr s') \<and>
   getStoredUser P None = Inr JNull \<and>
   (localStorage w USER_KEY = None \<longrightarrow> getStoredUser P (Some w) = Inr JNull) \<and>
   (localStorage w USER_KEY = Some raw \<and> isl (JSON_parse P raw) \<longrightarrow>
      getStoredUser P (Some w) = Inr JNull) \<and>
   (localStorage w USER_KEY = Some raw \<and> raw \<noteq> [] \<and> JSON_parse P raw = Inr v \<longrightarrow>
      getStoredUser P (Some w) = Inr v)"
  using getStoredUser_Inr [of P e] checkAuth_Inr [of P s]
  by (auto simp: getStoredUser_def getStoredUser_try_def split: sum.splits)

theorem getStoredUser_total_witness:
  "getStoredUser examplePlatform (Some emptyWindow) = Inr JNull \<and>
   getStoredUser examplePlatform
     (Some (emptyWindow\<lparr>localStorage := [USER_KEY \<mapsto> ''oops'']\<rparr>)) = Inr JNull \<and>
   getStoredUser examplePlatform
     (Some (emptyWindow\<lparr>localStorage := [USER_KEY \<mapsto> ''{}'']\<rparr>)) = Inr (JObj []) \<and>
   checkAuth examplePlatform
     (loggedOut\<lparr>environment :=
        Some (emptyWindow\<lparr>localStorage := [TOKEN_KEY \<mapsto> ''t0'', USER_KEY \<mapsto> ''oops'']\<rparr>)\<rparr>) =
     Inr (loggedOut\<lparr>environment :=
        Some (emptyWindow\<lparr>localStorage := [TOKEN_KEY \<mapsto> ''t0'', USER_KEY \<mapsto> ''oops'']\<rparr>)\<rparr>)"
  using
    getStoredUser_total [of examplePlatform _ _ emptyWindow]
    getStoredUser_total [of examplePlatform _ _ "emptyWindow\<lparr>localStorage := [USER_KEY \<mapsto> ''oops'']\<rparr>" "''oops''"]
    getStoredUser_total [of examplePlatform _ _ "emptyWindow\<lparr>localStorage := [USER_KEY \<mapsto> ''{}'']\<rparr>" "''{}''" "JObj []"]
  by (simp add: emptyWindow_def example_parse_simps checkAuth_def getToken_def loggedOut_def
      truthyStr_def TOKEN_KEY_def USER_KEY_def getStoredUser_def getStoredUser_try_def)

text \<open>
  C8. Whatever the backend call does (\<open>fetch\<close> throws, any HTTP status, any body),
  \<open>logout\<close> returns normally, the token is gone from localStorage and the token store's
  cookie is gone from the jar, the stored user is removed, the user is \<^verbatim>\<open>null\<close> and
  the router is sent to the login path. Nothing else in the environment changes; so when the
  jar held no other cookie of the token's name before, it holds none of that name after.
\<close>

theorem logout_always_clears:
  "fst (logout P fetched s) = Inr () \<and>
   getToken (environment (snd (logout P fetched s))) = None \<and>
   authCookie (environment (snd (logout P fetched s))) = None \<and>
   user (snd (logout P fetched s)) = JNull \<and>
   replaced (snd (logout P fetched s)) = Some LOGIN_PATH \<and>
   environment (snd (logout P fetched s)) =
     map_option (\<lambda>w. w\<lparr>localStorage := (localStorage w)(TOKEN_KEY := None, USER_KEY := None),
                        cookieJar := (cookieJar w)(authCookieKey := None)\<rparr>) (environment s) \<and>
   ((\<forall>d p. (d, p) \<noteq> (None, ''/'') \<longrightarrow>
        jarLookup (environment s) (AUTH_COOKIE_NAME, d, p) = None) \<longrightarrow>
    (\<forall>d p. jarLookup (environment (snd (logout P fetched s))) (AUTH_COOKIE_NAME, d, p) = None))"
proof -
  have env: "environment (snd (logout P fetched s)) =
     map_option (\<lambda>w. w\<lparr>localStorage := (localStorage w)(TOKEN_KEY := None, USER_KEY := None),
                        cookieJar := (cookieJar w)(authCookieKey := None)\<rparr>) (environment s)"
    by (cases "environment s")
       (simp_all add: logout_def api_logout_result removeToken_server removeToken_browser
          setStoredUser_def)
  have tok: "getToken (environment (snd (logout P fetched s))) = None"
    unfolding env
    by (cases "environment s") (simp_all add: getToken_def TOKEN_KEY_def USER_KEY_def)
  have ck: "authCookie (environment (snd (logout P fetched s))) = None"
    unfolding env
    by (cases "environment s") (simp_all add: authCookie_def jarLookup_def)
  have rest: "fst (logout P fetched s) = Inr ()" "user (snd (logout P fetched s)) = JNull"
    "replaced (snd (logout P fetched s)) = Some LOGIN_PATH"
    by (simp_all add: logout_def api_logout_result LOGIN_PATH_def)
  have none_left:
    "(\<forall>d p. (d, p) \<noteq> (None, ''/'') \<longrightarrow>
        jarLookup (environment s) (AUTH_COOKIE_NAME, d, p) = None) \<Longrightarrow>
     (\<forall>d p. jarLookup (environment (snd (logout P fetched s))) (AUTH_COOKIE_NAME, d, p) = None)"
    unfolding env
    by (cases "environment s") (auto simp: jarLookup_def authCookieKey_def)
  show ?thesis
    using env tok ck rest none_left by blast
qed

theorem logout_always_clears_witness:
  "fst (logout examplePlatform (Inl (OtherError ''Failed to fetch''))
          (loggedOut\<lparr>environment := setToken ''t0'' None (Some emptyWindow)\<rparr>)) = Inr () \<and>
   getToken (setToken ''t0'' None (Some emptyWindow)) = Some ''t0'' \<and>
   getToken (environment (snd (logout examplePlatform (Inl (OtherError ''Failed to fetch''))
          (loggedOut\<lparr>environment := setToken ''t0'' None (Some emptyWindow)\<rparr>)))) = None \<and>
   (\<forall>d p. jarLookup (environment (snd (logout examplePlatform (Inl (OtherError ''Failed to fetch''))
          (loggedOut\<lparr>environment := setToken ''t0'' None (Some emptyWindow)\<rparr>))))
        (AUTH_COOKIE_NAME, d, p) = None)"
proof -
  have pre: "\<forall>d p. (d, p) \<noteq> (None, ''/'') \<longrightarrow>
      jarLookup (environment (loggedOut\<lparr>environment := setToken ''t0'' None (Some emptyWindow)\<rparr>))
        (AUTH_COOKIE_NAME, d, p) = None"
    by (simp add: setToken_browser jarLookup_def authCookieKey_def emptyWindow_def)
  have tok: "getToken (setToken ''t0'' None (Some emptyWindow)) = Some ''t0''"
    by (simp add: setToken_browser getToken_def)
  show ?thesis
    using pre tok
      logout_always_clears
        [of examplePlatform "Inl (OtherError ''Failed to fetch'')"
          "loggedOut\<lparr>environment := setToken ''t0'' None (Some emptyWindow)\<rparr>"]
    by blast
qed

section \<open>Properties of login\<close>

lemma login_success_requires:
  "fst (login P fetched options s) = Inr () \<Longrightarrow>
   \<exists>response. apiFetch P fetched = Inr response \<and>
     truthyU (getProp (Some response) ''success'') \<and>
     truthyU (getProp (getProp (Some response) ''data'') ''token'') \<and>
     truthyU (getProp (getProp (Some response) ''data'') ''admin'')"
  by (auto simp: login_def api_login_def Let_def truthyU_def
      split: sum.splits option.splits if_splits prod.splits)

lemma login_failure_unchanged:
  "apiFetch P fetched = Inl err \<or>
   (apiFetch P fetched = Inr response \<and>
    (\<not> truthyU (getProp (Some response) ''success'') \<or>
     \<not> truthyU (getProp (getProp (Some response) ''data'') ''token''))) \<Longrightarrow>
   isl (fst (login P fetched options s)) \<and> snd (login P fetched options s) = s"
  by (auto simp: login_def api_login_def Let_def split: sum.splits option.splits prod.splits)

lemma login_redirect_target:
  "fst (login P fetched options s) = Inr () \<Longrightarrow>
   replaced (snd (login P fetched options s)) =
     Some (case (case options of None \<Rightarrow> None | Some opt \<Rightarrow> redirectTo opt) of
             None \<Rightarrow> DEFAULT_REDIRECT_AFTER_LOGIN
           | Some r \<Rightarrow> if startsWith r ''/'' then r else DEFAULT_REDIRECT_AFTER_LOGIN)"
  by (auto simp: login_def api_login_def Let_def startsWith_def
      split: sum.splits option.splits if_splits prod.splits)

lemma example_parse_login:
  \<open>JSON_parse examplePlatform ''{"success":true,"data":{"token":"t0"}}'' =
     Inr (JObj [(''success'', JBool True), (''data'', JObj [(''token'', JStr ''t0'')])])\<close>
  \<open>JSON_parse examplePlatform ''{"success":true,"data":{"token":"t0","admin":{"id":1}}}'' =
     Inr (JObj [(''success'', JBool True),
                (''data'', JObj [(''token'', JStr ''t0''), (''admin'', JObj [(''id'', JNum 1)])])])\<close>
  by (simp_all add: examplePlatform_def exampleParse_def)

lemma example_stringify: "JSON_stringify examplePlatform v = ''{}''"
  by (simp add: examplePlatform_def)

lemma example_fetch_login:
  \<open>apiFetch examplePlatform
     (Inr \<lparr>status = 200, body = ''{"success":true,"data":{"token":"t0"}}''\<rparr>) =
     Inr (JObj [(''success'', JBool True), (''data'', JObj [(''token'', JStr ''t0'')])])\<close>
  \<open>apiFetch examplePlatform
     (Inr \<lparr>status = 200, body = ''{"success":true,"data":{"token":"t0","admin":{"id":1}}}''\<rparr>) =
     Inr (JObj [(''success'', JBool True),
                (''data'', JObj [(''token'', JStr ''t0''), (''admin'', JObj [(''id'', JNum 1)])])])\<close>
  by (simp_all add: apiFetch_ok res_ok_def parseJsonSafe_def example_parse_login)

lemma encode_t0: "encodeURIComponent ''t0'' = ''t0''"
  by (simp add: encodeURIComponent_def isUnreserved_def)

text \<open>
  C3. The claim has every failed login leave the token store and the cookie unchanged.
  At a 200 response with \<open>success\<close> and a token but no \<open>admin\<close>, login fails (an
  \<open>ApiError\<close> is thrown) and yet the token has been written to localStorage and to the
  cookie: the API service stores it before the context validates the response.
\<close>

theorem login_without_admin_stores_token:
  \<open>getToken (environment loggedOut) = None \<and>
   authCookie (environment loggedOut) = None \<and>
   isl (fst (login examplePlatform
               (Inr \<lparr>status = 200, body = ''{"success":true,"data":{"token":"t0"}}''\<rparr>)
               None loggedOut)) \<and>
   getToken (environment (snd (login examplePlatform
               (Inr \<lparr>status = 200, body = ''{"success":true,"data":{"token":"t0"}}''\<rparr>)
               None loggedOut))) = Some ''t0'' \<and>
   authCookie (environment (snd (login examplePlatform
               (Inr \<lparr>status = 200, body = ''{"success":true,"data":{"token":"t0"}}''\<rparr>)
               None loggedOut))) =
     Some \<lparr>cvalue = ''t0'', cpath = ''/'', maxAge = 86400, sameSite = ''Lax''\<rparr>\<close>
  by (simp add: login_def api_login_def example_fetch_login truthyU_def js_String_def
      setToken_browser loggedOut_def emptyWindow_def getToken_def authCookie_def jarLookup_def
      encode_t0 Let_def)

theorem login_without_admin_stores_token_witness:
  \<open>getToken (environment (snd (login examplePlatform
      (Inr \<lparr>status = 200, body = ''{"success":true,"data":{"token":"t0"}}''\<rparr>)
      None loggedOut))) \<noteq> getToken (environment loggedOut)\<close>
  using login_without_admin_stores_token by simp

text \<open>
  C4. The redirect target after login is the requested one exactly when it starts with
  \<open>/\<close>. A scheme-relative reference such as \<open>//evil.example/x\<close> starts with
  \<open>/\<close> too, so login hands it to \<^verbatim>\<open>router.replace\<close> unchanged.
\<close>

theorem login_redirect_scheme_relative:
  \<open>startsWith ''//evil.example/x'' ''//'' \<and>
   login examplePlatform
     (Inr \<lparr>status = 200, body = ''{"success":true,"data":{"token":"t0","admin":{"id":1}}}''\<rparr>)
     (Some \<lparr>redirectTo = Some ''//evil.example/x'', remember = None\<rparr>) loggedOut =
   (Inr (),
    \<lparr>user = JObj [(''id'', JNum 1)], isLoading = False,
     environment = Some
       \<lparr>localStorage = [TOKEN_KEY \<mapsto> ''t0'', USER_KEY \<mapsto> ''{}''],
        cookieJar = [(AUTH_COOKIE_NAME, None, ''/'') \<mapsto>
          \<lparr>cvalue = ''t0'', cpath = ''/'', maxAge = 86400, sameSite = ''Lax''\<rparr>]\<rparr>,
     replaced = Some ''//evil.example/x''\<rparr>)\<close>
  by (simp add: login_def api_login_def example_fetch_login truthyU_def js_String_def
      setToken_browser loggedOut_def emptyWindow_def encode_t0 Let_def setStoredUser_def
      startsWith_def example_stringify authCookieKey_def)

theorem login_redirect_scheme_relative_witness:
  \<open>replaced (snd (login examplePlatform
     (Inr \<lparr>status = 200, body = ''{"success":true,"data":{"token":"t0","admin":{"id":1}}}''\<rparr>)
     (Some \<lparr>redirectTo = Some ''//evil.example/x'', remember = None\<rparr>) loggedOut)) =
   Some ''//evil.example/x''\<close>
  using login_redirect_scheme_relative by simp

section \<open>Properties of the Route Gate\<close>

lemma not_public_news: "\<not> isPublicPath ''/news''"
  by (simp add: isPublicPath_def PUBLIC_PATHS_def LOGIN_PATH_def UNPROTECTED_PREFIXES_def
      startsWith_def)

lemma login_is_public: "isPublicPath LOGIN_PATH"
  by (simp add: isPublicPath_def PUBLIC_PATHS_def)

lemma middleware_protected_absent:
  "\<not> isPublicPath (pathname (nextUrl req)) \<Longrightarrow> \<not> truthyStr (cookies req AUTH_COOKIE_NAME) \<Longrightarrow>
   middleware sp req = NextResponse_redirect
     \<lparr>origin = origin (nextUrl req), pathname = LOGIN_PATH,
      searchParams = [(CALLBACK_URL_PARAM, pathname (nextUrl req))]\<rparr>"
  by (simp add: middleware_def Let_def)

lemma middleware_protected_present:
  "\<not> isPublicPath (pathname (nextUrl req)) \<Longrightarrow> truthyStr (cookies req AUTH_COOKIE_NAME) \<Longrightarrow>
   middleware sp req = NextResponse_next"
  by (simp add: middleware_def Let_def)

lemma middleware_login_present:
  "isLoginPath (pathname (nextUrl req)) \<Longrightarrow> truthyStr (cookies req AUTH_COOKIE_NAME) \<Longrightarrow>
   middleware sp req = NextResponse_redirect
     \<lparr>origin = origin (nextUrl req),
      pathname = sp (callbackTarget req),
      searchParams = searchParams_delete (searchParams (nextUrl req)) CALLBACK_URL_PARAM\<rparr>"
  using login_is_public
  by (cases "nextUrl req")
     (auto simp: middleware_def Let_def isLoginPath_def startsWith_def callbackTarget_def
        split: option.splits)

lemma middleware_public_absent:
  "isPublicPath (pathname (nextUrl req)) \<Longrightarrow> \<not> truthyStr (cookies req AUTH_COOKIE_NAME) \<Longrightarrow>
   middleware sp req = NextResponse_next"
  by (simp add: middleware_def Let_def)

lemma middleware_next_iff:
  "middleware sp req = NextResponse_next \<longleftrightarrow>
     (if isPublicPath (pathname (nextUrl req))
      then \<not> (truthyStr (cookies req AUTH_COOKIE_NAME) \<and> isLoginPath (pathname (nextUrl req)))
      else truthyStr (cookies req AUTH_COOKIE_NAME))"
  by (simp add: middleware_def Let_def)

lemma example_setPathname_simps:
  "exampleSetPathname ''/news'' = ''/news''"
  "exampleSetPathname ''/'' = ''/''"
  "exampleSetPathname ''/news?page=2'' = ''/news%3Fpage=2''"
  by (simp_all add: exampleSetPathname_def)

text \<open>
  C1, as the code has it. On a request it is called with, the gate counts the auth cookie
  as present only when its value is not empty. For a protected path: without such a cookie
  it redirects to the login path with the original path as the \<open>callbackUrl\<close> parameter,
  with one it lets the request through. For the login path: with such a cookie it never
  renders login but answers with a redirect on the request's origin, and whenever the path
  that the callback target gives is not the login path itself, the redirect leads there,
  away from login, with the parameter removed; without such a cookie it lets login render.
  Whether a request is let through depends on its path and its auth cookie alone.
\<close>

theorem middleware_decision_table:
  "(\<not> isPublicPath (pathname (nextUrl req)) \<and> \<not> truthyStr (cookies req AUTH_COOKIE_NAME) \<longrightarrow>
      middleware sp req = NextResponse_redirect
        \<lparr>origin = origin (nextUrl req), pathname = LOGIN_PATH,
         searchParams = [(CALLBACK_URL_PARAM, pathname (nextUrl req))]\<rparr>) \<and>
   (\<not> isPublicPath (pathname (nextUrl req)) \<and> truthyStr (cookies req AUTH_COOKIE_NAME) \<longrightarrow>
      middleware sp req = NextResponse_next) \<and>
   (isLoginPath (pathname (nextUrl req)) \<and> truthyStr (cookies req AUTH_COOKIE_NAME) \<longrightarrow>
      (\<exists>u. middleware sp req = NextResponse_redirect u \<and> origin u = origin (nextUrl req))) \<and>
   (isLoginPath (pathname (nextUrl req)) \<and> truthyStr (cookies req AUTH_COOKIE_NAME) \<and>
    sp (callbackTarget req) \<noteq> LOGIN_PATH \<longrightarrow>
      (\<exists>u. middleware sp req = NextResponse_redirect u \<and>
           pathname u \<noteq> LOGIN_PATH \<and>
           u = \<lparr>origin = origin (nextUrl req), pathname = sp (callbackTarget req),
                searchParams =
                  searchParams_delete (searchParams (nextUrl req)) CALLBACK_URL_PARAM\<rparr>)) \<and>
   (isLoginPath (pathname (nextUrl req)) \<and> \<not> truthyStr (cookies req AUTH_COOKIE_NAME) \<longrightarrow>
      middleware sp req = NextResponse_next) \<and>
   (pathname (nextUrl req) = pathname (nextUrl req') \<and>
    cookies req AUTH_COOKIE_NAME = cookies req' AUTH_COOKIE_NAME \<longrightarrow>
      (middleware sp req = NextResponse_next) = (middleware sp req' = NextResponse_next))"
proof -
  have pub: "isLoginPath (pathname (nextUrl req)) \<Longrightarrow> isPublicPath (pathname (nextUrl req))"
    using login_is_public by (simp add: isLoginPath_def)
  have login: "isLoginPath (pathname (nextUrl req)) \<Longrightarrow> truthyStr (cookies req AUTH_COOKIE_NAME) \<Longrightarrow>
      middleware sp req = NextResponse_redirect
        \<lparr>origin = origin (nextUrl req), pathname = sp (callbackTarget req),
         searchParams = searchParams_delete (searchParams (nextUrl req)) CALLBACK_URL_PARAM\<rparr>"
    by (rule middleware_login_present)
  have same: "pathname (nextUrl req) = pathname (nextUrl req') \<Longrightarrow>
      cookies req AUTH_COOKIE_NAME = cookies req' AUTH_COOKIE_NAME \<Longrightarrow>
      (middleware sp req = NextResponse_next) = (middleware sp req' = NextResponse_next)"
    by (simp add: middleware_next_iff)
  show ?thesis
    using pub login same middleware_protected_absent [of req sp]
      middleware_protected_present [of req sp] middleware_public_absent [of req sp]
    by auto
qed

theorem middleware_decision_table_witness:
  "middleware exampleSetPathname
     \<lparr>nextUrl = \<lparr>origin = ''https://admin.example'', pathname = ''/news'', searchParams = []\<rparr>,
      cookies = Map.empty\<rparr> =
     NextResponse_redirect \<lparr>origin = ''https://admin.example'', pathname = ''/login'',
                            searchParams = [(''callbackUrl'', ''/news'')]\<rparr> \<and>
   middleware exampleSetPathname
     \<lparr>nextUrl = \<lparr>origin = ''https://admin.example'', pathname = ''/news'', searchParams = []\<rparr>,
      cookies = [''admin_auth_token'' \<mapsto> ''t0'']\<rparr> = NextResponse_next \<and>
   middleware exampleSetPathname
     \<lparr>nextUrl = \<lparr>origin = ''https://admin.example'', pathname = ''/login'',
                 searchParams = [(''callbackUrl'', ''/news?page=2'')]\<rparr>,
      cookies = [''admin_auth_token'' \<mapsto> ''t0'']\<rparr> =
     NextResponse_redirect \<lparr>origin = ''https://admin.example'', pathname = ''/news%3Fpage=2'',
                            searchParams = []\<rparr> \<and>
   middleware exampleSetPathname
     \<lparr>nextUrl = \<lparr>origin = ''https://admin.example'', pathname = ''/login'', searchParams = []\<rparr>,
      cookies = Map.empty\<rparr> = NextResponse_next"
  using
    middleware_decision_table
      [of "\<lparr>nextUrl = \<lparr>origin = ''https://admin.example'', pathname = ''/news'', searchParams = []\<rparr>,
            cookies = Map.empty\<rparr>" exampleSetPathname "\<lparr>nextUrl = \<lparr>origin = [], pathname = [], searchParams = []\<rparr>, cookies = Map.empty\<rparr>"]
    middleware_decision_table
      [of "\<lparr>nextUrl = \<lparr>origin = ''https://admin.example'', pathname = ''/news'', searchParams = []\<rparr>,
            cookies = [''admin_auth_token'' \<mapsto> ''t0'']\<rparr>" exampleSetPathname "\<lparr>nextUrl = \<lparr>origin = [], pathname = [], searchParams = []\<rparr>, cookies = Map.empty\<rparr>"]
    middleware_decision_table
      [of "\<lparr>nextUrl = \<lparr>origin = ''https://admin.example'', pathname = ''/login'',
                       searchParams = [(''callbackUrl'', ''/news?page=2'')]\<rparr>,
            cookies = [''admin_auth_token'' \<mapsto> ''t0'']\<rparr>" exampleSetPathname "\<lparr>nextUrl = \<lparr>origin = [], pathname = [], searchParams = []\<rparr>, cookies = Map.empty\<rparr>"]
    middleware_decision_table
      [of "\<lparr>nextUrl = \<lparr>origin = ''https://admin.example'', pathname = ''/login'', searchParams = []\<rparr>,
            cookies = Map.empty\<rparr>" exampleSetPathname "\<lparr>nextUrl = \<lparr>origin = [], pathname = [], searchParams = []\<rparr>, cookies = Map.empty\<rparr>"]
  by (auto simp: not_public_news truthyStr_def AUTH_COOKIE_NAME_def isLoginPath_def LOGIN_PATH_def
      CALLBACK_URL_PARAM_def searchParams_get_def searchParams_delete_def startsWith_def
      callbackTarget_def example_setPathname_simps)

text \<open>
  C1 as stated fails for a cookie that is present with an empty value
  (\<^verbatim>\<open>Cookie: admin_auth_token=\<close>): on a protected path the request is not let
  through.
\<close>

theorem middleware_empty_cookie_counterexample:
  "cookies \<lparr>nextUrl = \<lparr>origin = ''https://admin.example'', pathname = ''/news'', searchParams = []\<rparr>,
            cookies = [AUTH_COOKIE_NAME \<mapsto> []]\<rparr> AUTH_COOKIE_NAME \<noteq> None \<and>
   \<not> isPublicPath ''/news'' \<and>
   middleware exampleSetPathname
     \<lparr>nextUrl = \<lparr>origin = ''https://admin.example'', pathname = ''/news'', searchParams = []\<rparr>,
      cookies = [AUTH_COOKIE_NAME \<mapsto> []]\<rparr> \<noteq> NextResponse_next"
  by (simp add: middleware_next_iff not_public_news truthyStr_def)

section \<open>Properties of the cache keys and of the mutations\<close>

lemma joinWith_prefix: "prefix x (joinWith sep (x # xs))"
  by (cases xs) simp_all

lemma news_list_key_matches: "isNewsListKey (getNewsListKey params)"
  by (simp add: isNewsListKey_def getNewsListKey_def startsWith_def joinWith_prefix)

lemma pdf_list_key_matches: "isPdfListKey (getPdfListKey params)"
  by (simp add: isPdfListKey_def getPdfListKey_def startsWith_def joinWith_prefix)

lemma news_single_not_list: "\<not> isNewsListKey (newsSingleKey i)"
  by (simp add: isNewsListKey_def newsSingleKey_def startsWith_def)

lemma pdf_single_not_list: "\<not> isPdfListKey (pdfSingleKey i)"
  by (simp add: isPdfListKey_def pdfSingleKey_def startsWith_def)

lemma mustFetch_filter:
  "matches k \<Longrightarrow> mustFetch (globalMutate_filter matches r c) k"
  by (simp add: mustFetch_def globalMutate_filter_def split: option.splits)

lemma filter_entry:
  "matches k \<Longrightarrow> c k = Some e \<Longrightarrow>
   globalMutate_filter matches r c k = Some \<lparr>cachedData = None, revalidationRequested = r\<rparr>"
  by (simp add: globalMutate_filter_def)

lemma filter_other:
  "\<not> matches k \<Longrightarrow> globalMutate_filter matches r c k = c k"
  by (simp add: globalMutate_filter_def split: option.splits)

lemma key_then_filter_list:
  "matches k \<Longrightarrow> mustFetch (globalMutate_filter matches r (globalMutate_key sk r' c)) k"
  by (rule mustFetch_filter)

lemma key_then_filter_entry:
  "matches k \<Longrightarrow> c k = Some e \<Longrightarrow>
   globalMutate_filter matches r (globalMutate_key sk r' c) k =
     Some \<lparr>cachedData = None, revalidationRequested = r\<rparr>"
  by (auto simp: globalMutate_filter_def globalMutate_key_def)

lemma example_ok: "apiFetch examplePlatform (Inr \<lparr>status = 200, body = ''{}''\<rparr>) = Inr (JObj [])"
  by (simp add: apiFetch_ok res_ok_def parseJsonSafe_def example_parse_simps)

text \<open>
  C2. After every successful mutation (create, update, delete of news; create, update,
  delete and status toggle of PDFs) every key that starts with the resource's list prefix
  has no cached data left, so its next reader fetches; the entries that were in the cache
  have been cleared with revalidation requested. Every key the list hooks build starts
  with that prefix, whatever the page, limit and search.
\<close>

theorem mutations_invalidate_list_keys:
  "apiFetch P fetched = Inr response \<Longrightarrow>
   isNewsListKey (getNewsListKey params) \<and> isPdfListKey (getPdfListKey params) \<and>
   (isNewsListKey k \<longrightarrow>
      mustFetch (snd (createNews P fetched c)) k \<and>
      mustFetch (snd (updateNews P i fetched c)) k \<and>
      mustFetch (snd (deleteNews P i fetched c)) k) \<and>
   (isPdfListKey k \<longrightarrow>
      mustFetch (snd (createPdf P fetched c)) k \<and>
      mustFetch (snd (updatePdf P i fetched c)) k \<and>
      mustFetch (snd (deletePdf P i fetched c)) k \<and>
      mustFetch (snd (updateStatus P i fetched c)) k) \<and>
   (isNewsListKey k \<and> c k \<noteq> None \<longrightarrow>
      snd (createNews P fetched c) k = Some \<lparr>cachedData = None, revalidationRequested = True\<rparr> \<and>
      snd (updateNews P i fetched c) k = Some \<lparr>cachedData = None, revalidationRequested = True\<rparr> \<and>
      snd (deleteNews P i fetched c) k = Some \<lparr>cachedData = None, revalidationRequested = True\<rparr>) \<and>
   (isPdfListKey k \<and> c k \<noteq> None \<longrightarrow>
      snd (createPdf P fetched c) k = Some \<lparr>cachedData = None, revalidationRequested = True\<rparr> \<and>
      snd (updatePdf P i fetched c) k = Some \<lparr>cachedData = None, revalidationRequested = True\<rparr> \<and>
      snd (deletePdf P i fetched c) k = Some \<lparr>cachedData = None, revalidationRequested = True\<rparr> \<and>
      snd (updateStatus P i fetched c) k = Some \<lparr>cachedData = None, revalidationRequested = True\<rparr>)"
proof -
  assume ok: "apiFetch P fetched = Inr response"
  have news: "isNewsListKey k \<Longrightarrow>
      mustFetch (snd (createNews P fetched c)) k \<and>
      mustFetch (snd (updateNews P i fetched c)) k \<and>
      mustFetch (snd (deleteNews P i fetched c)) k"
    using ok by (simp add: createNews_def updateNews_def deleteNews_def mustFetch_filter)
  have pdf: "isPdfListKey k \<Longrightarrow>
      mustFetch (snd (createPdf P fetched c)) k \<and>
      mustFetch (snd (updatePdf P i fetched c)) k \<and>
      mustFetch (snd (deletePdf P i fetched c)) k \<and>
      mustFetch (snd (updateStatus P i fetched c)) k"
    using ok by (simp add: createPdf_def updatePdf_def deletePdf_def updateStatus_def mustFetch_filter)
  have newsE: "isNewsListKey k \<Longrightarrow> c k \<noteq> None \<Longrightarrow>
      snd (createNews P fetched c) k = Some \<lparr>cachedData = None, revalidationRequested = True\<rparr> \<and>
      snd (updateNews P i fetched c) k = Some \<lparr>cachedData = None, revalidationRequested = True\<rparr> \<and>
      snd (deleteNews P i fetched c) k = Some \<lparr>cachedData = None, revalidationRequested = True\<rparr>"
    using ok
    by (auto simp: createNews_def updateNews_def deleteNews_def filter_entry key_then_filter_entry)
  have pdfE: "isPdfListKey k \<Longrightarrow> c k \<noteq> None \<Longrightarrow>
      snd (createPdf P fetched c) k = Some \<lparr>cachedData = None, revalidationRequested = True\<rparr> \<and>
      snd (updatePdf P i fetched c) k = Some \<lparr>cachedData = None, revalidationRequested = True\<rparr> \<and>
      snd (deletePdf P i fetched c) k = Some \<lparr>cachedData = None, revalidationRequested = True\<rparr> \<and>
      snd (updateStatus P i fetched c) k = Some \<lparr>cachedData = None, revalidationRequested = True\<rparr>"
    using ok
    by (auto simp: createPdf_def updatePdf_def deletePdf_def updateStatus_def filter_entry
        key_then_filter_entry)
  show ?thesis
    using news pdf newsE pdfE news_list_key_matches [of params] pdf_list_key_matches [of params]
    by blast
qed

theorem mutations_invalidate_list_keys_witness:
  "apiFetch examplePlatform (Inr \<lparr>status = 200, body = ''{}''\<rparr>) = Inr (JObj []) \<and>
   isNewsListKey ''news-list-page=2-limit=10'' \<and>
   exampleCache ''news-list-page=2-limit=10'' \<noteq> None \<and>
   isPdfListKey ''pdf-list-search=tax'' \<and>
   exampleCache ''pdf-list-search=tax'' \<noteq> None \<and>
   mustFetch (snd (createNews examplePlatform (Inr \<lparr>status = 200, body = ''{}''\<rparr>) exampleCache))
     ''news-list-page=2-limit=10'' \<and>
   mustFetch (snd (updateStatus examplePlatform (IdNum 42) (Inr \<lparr>status = 200, body = ''{}''\<rparr>) exampleCache))
     ''pdf-list-search=tax''"
  using
    mutations_invalidate_list_keys
      [OF example_ok, where k = "''news-list-page=2-limit=10''" and c = exampleCache]
    mutations_invalidate_list_keys
      [OF example_ok, where k = "''pdf-list-search=tax''" and c = exampleCache and i = "IdNum 42"]
  by (simp add: example_ok isNewsListKey_def isPdfListKey_def startsWith_def exampleCache_def)

lemma idText_num_inj: "n \<noteq> m \<Longrightarrow> idText (IdNum n) \<noteq> idText (IdNum m)"
  using string_of_nat_inj by auto

lemma single_frame:
  "k \<noteq> sk \<Longrightarrow> \<not> matches k \<Longrightarrow>
   globalMutate_filter matches r (globalMutate_key sk r' c) k = c k"
  by (simp add: filter_other globalMutate_key_def)

lemma single_hit:
  "\<not> matches sk \<Longrightarrow>
   globalMutate_filter matches r (globalMutate_key sk r' c) sk =
     Some \<lparr>cachedData = None, revalidationRequested = r'\<rparr>"
  by (simp add: filter_other globalMutate_key_def)

text \<open>
  C6. After a successful update or delete of record \<open>i\<close> the entry of its single-item
  key is cleared; the single-item entry of every record whose identifier renders
  differently is what it was before (and distinct numeric identifiers render differently);
  a successful create changes no single-item entry.
\<close>

theorem single_item_invalidation:
  "apiFetch P fetched = Inr response \<Longrightarrow>
   snd (updateNews P i fetched c) (newsSingleKey i) =
     Some \<lparr>cachedData = None, revalidationRequested = True\<rparr> \<and>
   snd (deleteNews P i fetched c) (newsSingleKey i) =
     Some \<lparr>cachedData = None, revalidationRequested = False\<rparr> \<and>
   snd (updatePdf P i fetched c) (pdfSingleKey i) =
     Some \<lparr>cachedData = None, revalidationRequested = True\<rparr> \<and>
   snd (deletePdf P i fetched c) (pdfSingleKey i) =
     Some \<lparr>cachedData = None, revalidationRequested = False\<rparr> \<and>
   (idText j \<noteq> idText i \<longrightarrow>
      snd (updateNews P i fetched c) (newsSingleKey j) = c (newsSingleKey j) \<and>
      snd (deleteNews P i fetched c) (newsSingleKey j) = c (newsSingleKey j) \<and>
      snd (updatePdf P i fetched c) (pdfSingleKey j) = c (pdfSingleKey j) \<and>
      snd (deletePdf P i fetched c) (pdfSingleKey j) = c (pdfSingleKey j)) \<and>
   snd (createNews P fetched c) (newsSingleKey j) = c (newsSingleKey j) \<and>
   snd (createPdf P fetched c) (pdfSingleKey j) = c (pdfSingleKey j) \<and>
   (n \<noteq> m \<longrightarrow> idText (IdNum n) \<noteq> idText (IdNum m))"
proof -
  assume ok: "apiFetch P fetched = Inr response"
  have hit: "snd (updateNews P i fetched c) (newsSingleKey i) =
       Some \<lparr>cachedData = None, revalidationRequested = True\<rparr>"
     "snd (deleteNews P i fetched c) (newsSingleKey i) =
       Some \<lparr>cachedData = None, revalidationRequested = False\<rparr>"
     "snd (updatePdf P i fetched c) (pdfSingleKey i) =
       Some \<lparr>cachedData = None, revalidationRequested = True\<rparr>"
     "snd (deletePdf P i fetched c) (pdfSingleKey i) =
       Some \<lparr>cachedData = None, revalidationRequested = False\<rparr>"
    using ok
    by (simp_all add: updateNews_def deleteNews_def updatePdf_def deletePdf_def single_hit
        news_single_not_list pdf_single_not_list)
  have other: "idText j \<noteq> idText i \<Longrightarrow>
      snd (updateNews P i fetched c) (newsSingleKey j) = c (newsSingleKey j) \<and>
      snd (deleteNews P i fetched c) (newsSingleKey j) = c (newsSingleKey j) \<and>
      snd (updatePdf P i fetched c) (pdfSingleKey j) = c (pdfSingleKey j) \<and>
      snd (deletePdf P i fetched c) (pdfSingleKey j) = c (pdfSingleKey j)"
  proof -
    assume d: "idText j \<noteq> idText i"
    then have "newsSingleKey j \<noteq> newsSingleKey i" "pdfSingleKey j \<noteq> pdfSingleKey i"
      by (simp_all add: newsSingleKey_def pdfSingleKey_def)
    then show ?thesis
      using ok
      by (simp add: updateNews_def deleteNews_def updatePdf_def deletePdf_def single_frame
          news_single_not_list pdf_single_not_list)
  qed
  have create: "snd (createNews P fetched c) (newsSingleKey j) = c (newsSingleKey j)"
      "snd (createPdf P fetched c) (pdfSingleKey j) = c (pdfSingleKey j)"
    using ok
    by (simp_all add: createNews_def createPdf_def filter_other news_single_not_list
        pdf_single_not_list)
  show ?thesis
    using hit other create idText_num_inj [of n m] by blast
qed

theorem single_item_invalidation_witness:
  "apiFetch examplePlatform (Inr \<lparr>status = 200, body = ''{}''\<rparr>) = Inr (JObj []) \<and>
   idText (IdNum 7) \<noteq> idText (IdNum 42) \<and>
   snd (updateNews examplePlatform (IdNum 42) (Inr \<lparr>status = 200, body = ''{}''\<rparr>) exampleCache)
     ''news-single-42'' = Some \<lparr>cachedData = None, revalidationRequested = True\<rparr> \<and>
   snd (updateNews examplePlatform (IdNum 42) (Inr \<lparr>status = 200, body = ''{}''\<rparr>) exampleCache)
     ''news-single-7'' = Some \<lparr>cachedData = Some (JObj []), revalidationRequested = False\<rparr>"
  using single_item_invalidation
      [OF example_ok, where i = "IdNum 42" and c = exampleCache and j = "IdNum 7" and n = 7
        and m = 42]
  by (simp add: example_ok newsSingleKey_def string_of_nat.simps digitChar_def exampleCache_def)

end
